theory Spec2Isabelle
  imports Complex_Main
begin

section \<open>Text and the filesystem\<close>

text \<open>
  A Python \<^verbatim>\<open>str\<close> is a sequence of Unicode code points. The classification
  tables behind \<^verbatim>\<open>str.isalnum\<close> and \<^verbatim>\<open>str.isspace\<close> belong to the interpreter,
  so they are a parameter of the model. \<^verbatim>\<open>str.strip()\<close> removes, at both ends, the
  characters that \<^verbatim>\<open>isspace\<close> accepts.
\<close>

type_synonym codepoint = nat
type_synonym utext = "codepoint list"

record chartab =
  isalnum :: "codepoint \<Rightarrow> bool"
  isspace :: "codepoint \<Rightarrow> bool"

definition strip :: "chartab \<Rightarrow> utext \<Rightarrow> utext" where
  "strip ct s = rev (dropWhile (isspace ct) (rev (dropWhile (isspace ct) s)))"

text \<open>
  What PyMuPDF shows of a document: \<^verbatim>\<open>fitz.open\<close> either raises or gives a document
  with pages; reading a page (\<^verbatim>\<open>doc[i]\<close>, \<^verbatim>\<open>get_text\<close>, \<^verbatim>\<open>get_images\<close>) either
  raises or gives its text and images.
\<close>

record page =
  page_text :: utext
  image_count :: nat

datatype page_read = PageOk page | PageRaises

record document =
  pages :: "page_read list"
  is_encrypted :: bool

record pdf_file =
  file_size :: nat
  contents :: "document option"

text \<open>
  A filesystem is a finite table from path strings to files; \<^verbatim>\<open>os.path.exists\<close> is
  membership, \<^verbatim>\<open>fitz.open\<close> raises on a missing path and on contents it cannot parse.
\<close>

type_synonym filesystem = "(string \<times> pdf_file) list"

definition path_exists :: "filesystem \<Rightarrow> string \<Rightarrow> bool" where
  "path_exists fs p = (map_of fs p \<noteq> None)"

definition fitz_open :: "filesystem \<Rightarrow> string \<Rightarrow> document option" where
  "fitz_open fs p = (case map_of fs p of None \<Rightarrow> None | Some f \<Rightarrow> contents f)"

section \<open>PDFAnalyzer (pdf_analyzer.py)\<close>

record analyzer =
  min_text_length :: int

definition PDFAnalyzer :: analyzer where
  "PDFAnalyzer = \<lparr>min_text_length = 50\<rparr>"

text \<open>The loop of \<^verbatim>\<open>has_embedded_text\<close>: \<^verbatim>\<open>total_text += page.get_text()\<close>.\<close>

fun collect_text :: "page_read list \<Rightarrow> utext \<Rightarrow> utext option" where
  "collect_text [] total_text = Some total_text"
| "collect_text (PageRaises # ps) total_text = None"
| "collect_text (PageOk p # ps) total_text = collect_text ps (total_text @ page_text p)"

definition has_embedded_text :: "chartab \<Rightarrow> analyzer \<Rightarrow> filesystem \<Rightarrow> string \<Rightarrow> bool \<times> nat" where
  "has_embedded_text ct self fs pdf_path =
     (case fitz_open fs pdf_path of
        None \<Rightarrow> (False, 0)
      | Some doc \<Rightarrow>
          (let total_pages = length (pages doc);
               pages_to_check = min 5 total_pages
           in case collect_text (take pages_to_check (pages doc)) [] of
                None \<Rightarrow> (False, 0)
              | Some total_text \<Rightarrow>
                  (let meaningful_text = filter (\<lambda>c. isalnum ct c \<or> isspace ct c) total_text;
                       has_text = (min_text_length self < int (length (strip ct meaningful_text)))
                   in (has_text, total_pages))))"

text \<open>
  \<^verbatim>\<open>get_detailed_info\<close>: the metadata strings are copied from the document and play no
  part in any decision; the model keeps the page count and the encryption flag. An
  exception gives the empty dictionary, here \<open>None\<close>.
\<close>

record detailed_info =
  di_pages :: nat
  di_is_encrypted :: bool

definition get_detailed_info :: "filesystem \<Rightarrow> string \<Rightarrow> detailed_info option" where
  "get_detailed_info fs pdf_path =
     (case fitz_open fs pdf_path of
        None \<Rightarrow> None
      | Some doc \<Rightarrow> Some \<lparr>di_pages = length (pages doc), di_is_encrypted = is_encrypted doc\<rparr>)"

text \<open>
  \<^verbatim>\<open>analyze_pages\<close>: one entry per analysed page. The fields \<^verbatim>\<open>text_area\<close> and
  \<^verbatim>\<open>dimensions\<close> are floating-point geometry that nothing reads; they are left out.
\<close>

record page_info =
  page_number :: nat
  text_length :: nat
  has_meaningful_text :: bool
  pi_image_count :: nat

fun analyze_pages_loop ::
  "chartab \<Rightarrow> nat \<Rightarrow> page_read list \<Rightarrow> page_info list \<Rightarrow> page_info list option" where
  "analyze_pages_loop ct page_num [] page_analysis = Some page_analysis"
| "analyze_pages_loop ct page_num (PageRaises # ps) page_analysis = None"
| "analyze_pages_loop ct page_num (PageOk p # ps) page_analysis =
     (let tl = length (strip ct (page_text p));
          info = \<lparr>page_number = page_num + 1, text_length = tl,
                  has_meaningful_text = (20 < tl), pi_image_count = image_count p\<rparr>
      in analyze_pages_loop ct (page_num + 1) ps (page_analysis @ [info]))"

definition analyze_pages :: "chartab \<Rightarrow> filesystem \<Rightarrow> string \<Rightarrow> nat \<Rightarrow> page_info list" where
  "analyze_pages ct fs pdf_path max_pages =
     (case fitz_open fs pdf_path of
        None \<Rightarrow> []
      | Some doc \<Rightarrow>
          (let pages_to_analyze = min max_pages (length (pages doc))
           in case analyze_pages_loop ct 0 (take pages_to_analyze (pages doc)) [] of
                None \<Rightarrow> []
              | Some page_analysis \<Rightarrow> page_analysis))"

text \<open>
  \<^verbatim>\<open>_calculate_text_coverage\<close> computes \<^verbatim>\<open>(pages_with_text / len(page_analysis)) * 100\<close>
  in floating point. The model computes the exact rational. \<^verbatim>\<open>analyze_pdf\<close> passes at
  most ten pages, and for every \<open>k \<le> n \<le> 10\<close> the float compares with 50 and
  with 80 as the rational does (\<^verbatim>\<open>(4/5)*100\<close> and \<^verbatim>\<open>(8/10)*100\<close> are \<^verbatim>\<open>80.0\<close>).
\<close>

definition calculate_text_coverage :: "page_info list \<Rightarrow> rat" where
  "calculate_text_coverage page_analysis =
     (if page_analysis = [] then 0
      else (let pages_with_text = length (filter has_meaningful_text page_analysis)
            in (of_nat pages_with_text / of_nat (length page_analysis)) * 100))"

text \<open>
  The four recommendation strings of \<^verbatim>\<open>_get_recommendation\<close>, in the order of the
  source: "ya tiene texto embebido. No necesita OCR", "tiene texto parcial. Considera
  OCR para completar", "tiene poco texto. Se recomienda OCR", "PDF escaneado detectado.
  Se requiere OCR".
\<close>

datatype recommendation = NoOcrNeeded | PartialOcrSuggested | OcrRecommended | OcrRequired

definition get_recommendation :: "bool \<Rightarrow> page_info list \<Rightarrow> recommendation" where
  "get_recommendation has_text page_analysis =
     (if has_text then
        (let text_coverage = calculate_text_coverage page_analysis
         in if text_coverage > 80 then NoOcrNeeded
            else if text_coverage > 50 then PartialOcrSuggested
            else OcrRecommended)
      else OcrRequired)"

text \<open>
  \<^verbatim>\<open>analyze_pdf\<close> returns a dictionary: \<open>Inr\<close> is the one with \<^verbatim>\<open>'success': True\<close>,
  \<open>Inl\<close> the one with \<^verbatim>\<open>'success': False\<close> and its error. \<^verbatim>\<open>file_name\<close> and
  \<^verbatim>\<open>file_size_mb\<close> are presentation of the path and of \<^verbatim>\<open>file_size\<close>.
\<close>

datatype exn = AllOcrMethodsFailed | OSError

datatype failure =
    FileNotFound
  | DoesNotExist
  | NotAPdf
  | CannotOpen
  | NoPages
  | InputNotFound
  | OutputNotGenerated
  | ProcessingError exn
  | CopyError

record analysis =
  an_file_path :: string
  an_file_size :: nat
  an_page_count :: nat
  an_has_embedded_text :: bool
  an_text_coverage :: rat
  an_recommendation :: recommendation
  an_detailed_info :: "detailed_info option"
  an_page_analysis :: "page_info list"
  an_processing_needed :: bool

definition analyze_pdf :: "chartab \<Rightarrow> analyzer \<Rightarrow> filesystem \<Rightarrow> string \<Rightarrow> failure + analysis" where
  "analyze_pdf ct self fs pdf_path =
     (case map_of fs pdf_path of
        None \<Rightarrow> Inl FileNotFound
      | Some f \<Rightarrow>
          (let (has_text, page_count) = has_embedded_text ct self fs pdf_path;
               detailed = get_detailed_info fs pdf_path;
               page_analysis = analyze_pages ct fs pdf_path 10
           in Inr \<lparr>an_file_path = pdf_path,
                   an_file_size = file_size f,
                   an_page_count = page_count,
                   an_has_embedded_text = has_text,
                   an_text_coverage = calculate_text_coverage page_analysis,
                   an_recommendation = get_recommendation has_text page_analysis,
                   an_detailed_info = detailed,
                   an_page_analysis = page_analysis,
                   an_processing_needed = (\<not> has_text)\<rparr>))"

text \<open>
  The entry \<^verbatim>\<open>analyze_pages\<close> builds for the page with index \<open>n\<close>, and the
  documents on which \<^verbatim>\<open>has_embedded_text\<close> meets a read error: the ones
  \<^verbatim>\<open>fitz.open\<close> rejects and the ones with a page among the sampled five that
  cannot be read.
\<close>

definition info_of :: "chartab \<Rightarrow> nat \<Rightarrow> page \<Rightarrow> page_info" where
  "info_of ct n p =
     \<lparr>page_number = n + 1, text_length = length (strip ct (page_text p)),
      has_meaningful_text = (20 < length (strip ct (page_text p))),
      pi_image_count = image_count p\<rparr>"


subsection \<open>Sample inputs for the analyzer\<close>

text \<open>
  A character table that knows the letter \<open>a\<close> (97) and the blank (32), and three files:
  one page holding a blank, an exclamation mark, 51 letters and a blank; two pages, the
  first with 60 letters and the second empty; and a file that is not a PDF at all.
\<close>

definition ascii_a_blank :: chartab where
  "ascii_a_blank = \<lparr>isalnum = (\<lambda>c. c = 97), isspace = (\<lambda>c. c = 32)\<rparr>"

definition page_51 :: page where
  "page_51 = \<lparr>page_text = [32, 33] @ replicate 51 97 @ [32], image_count = 0\<rparr>"

definition page_60 :: page where
  "page_60 = \<lparr>page_text = replicate 60 97, image_count = 0\<rparr>"

definition page_empty :: page where
  "page_empty = \<lparr>page_text = [], image_count = 1\<rparr>"

definition doc_one :: document where
  "doc_one = \<lparr>pages = [PageOk page_51], is_encrypted = False\<rparr>"

definition doc_half :: document where
  "doc_half = \<lparr>pages = [PageOk page_60, PageOk page_empty], is_encrypted = False\<rparr>"

definition sample_fs :: filesystem where
  "sample_fs =
     [(''one.pdf'', \<lparr>file_size = 1000, contents = Some doc_one\<rparr>),
      (''half.pdf'', \<lparr>file_size = 2000, contents = Some doc_half\<rparr>),
      (''junk.pdf'', \<lparr>file_size = 7, contents = None\<rparr>)]"

section \<open>Output names (utils.py)\<close>

text \<open>
  A \<^verbatim>\<open>pathlib.Path\<close> is used through its directory, its stem and its suffix;
  \<^verbatim>\<open>str\<close> of a path is the directory, a separator and the name. \<^verbatim>\<open>str_nat\<close> is the
  decimal numeral that an f-string prints for a non-negative \<^verbatim>\<open>int\<close>.
\<close>

record ppath =
  parent :: string
  stem :: string
  suffix :: string

definition joinpath :: "string \<Rightarrow> string \<Rightarrow> string" where
  "joinpath d n = d @ ''/'' @ n"

definition path_str :: "ppath \<Rightarrow> string" where
  "path_str p = joinpath (parent p) (stem p @ suffix p)"

definition digit_char :: "nat \<Rightarrow> char" where
  "digit_char d = char_of (48 + d)"

fun str_nat :: "nat \<Rightarrow> string" where
  "str_nat n = (if n < 10 then [digit_char n] else str_nat (n div 10) @ [digit_char (n mod 10)])"

declare str_nat.simps [simp del]

text \<open>The name built inside the loop: \<^verbatim>\<open>f"{base_name}_{counter}{input_file.suffix}"\<close>.\<close>

definition numbered :: "string \<Rightarrow> string \<Rightarrow> string \<Rightarrow> nat \<Rightarrow> string" where
  "numbered output_directory base_name ext counter =
     joinpath output_directory (base_name @ ''_'' @ str_nat counter @ ext)"

text \<open>
  \<^verbatim>\<open>while output_path.exists(): ...; counter += 1\<close>. The loop ends because the
  filesystem holds finitely many paths and different counters give different names.
\<close>

function unique_loop ::
  "filesystem \<Rightarrow> string \<Rightarrow> string \<Rightarrow> string \<Rightarrow> string \<Rightarrow> nat \<Rightarrow> string" where
  "unique_loop fs output_directory base_name ext output_path counter =
     (if path_exists fs output_path
      then unique_loop fs output_directory base_name ext
             (numbered output_directory base_name ext counter) (counter + 1)
      else output_path)"
  by pat_completeness auto
termination
proof (relation "measure (\<lambda>(fs, d, b, e, p, c).
         2 * card {k. c \<le> k \<and> path_exists fs (numbered d b e k)}
           + (if path_exists fs p then 1 else 0))")
  show "wf (measure (\<lambda>(fs, d, b, e, p, c).
         2 * card {k. c \<le> k \<and> path_exists fs (numbered d b e k)}
           + (if path_exists fs p then 1 else 0)))" by simp
next
  fix fs :: filesystem and d b e p :: string and c :: nat
  assume ex: "path_exists fs p"
  have digit_inj: "x = y" if "x < 10" "y < 10" "digit_char x = digit_char y" for x y
  proof -
    from that(3) have "of_char (digit_char x) = (of_char (digit_char y) :: nat)" by simp
    with that(1,2) show ?thesis by (simp add: digit_char_def)
  qed
  have nonempty: "str_nat n \<noteq> []" for n
    by (subst str_nat.simps) simp
  have str_inj: "str_nat m = str_nat n \<Longrightarrow> m = n" for m n
  proof (induction m arbitrary: n rule: str_nat.induct)
    case (1 m)
    show ?case
    proof (cases "m < 10")
      case True
      note m = this
      show ?thesis
      proof (cases "n < 10")
        case True
        with m "1.prems" show ?thesis
          by (simp add: str_nat.simps [of m] str_nat.simps [of n] digit_inj)
      next
        case False
        with m "1.prems" show ?thesis
          using nonempty [of "n div 10"]
          by (simp add: str_nat.simps [of m] str_nat.simps [of n])
      qed
    next
      case False
      note m = this
      show ?thesis
      proof (cases "n < 10")
        case True
        with m "1.prems" show ?thesis
          using nonempty [of "m div 10"]
          by (simp add: str_nat.simps [of m] str_nat.simps [of n])
      next
        case False
        with m "1.prems" have e: "str_nat (m div 10) = str_nat (n div 10)"
          and dg: "digit_char (m mod 10) = digit_char (n mod 10)"
          by (simp_all add: str_nat.simps [of m] str_nat.simps [of n])
        from "1.IH" [OF m e] have q: "m div 10 = n div 10" .
        from dg have r: "m mod 10 = n mod 10" by (simp add: digit_inj)
        from q r show ?thesis by (metis div_mult_mod_eq)
      qed
    qed
  qed
  have "{k. path_exists fs (numbered d b e k)} \<subseteq> numbered d b e -` (fst ` set fs)"
    by (auto simp: path_exists_def dom_map_of_conv_image_fst [symmetric])
  moreover have "finite (numbered d b e -` (fst ` set fs))"
    by (rule finite_vimageI) (auto simp: inj_on_def numbered_def joinpath_def dest: str_inj)
  ultimately have taken: "finite {k. path_exists fs (numbered d b e k)}"
    by (rule finite_subset)
  let ?A = "{k. c \<le> k \<and> path_exists fs (numbered d b e k)}"
  let ?B = "{k. c + 1 \<le> k \<and> path_exists fs (numbered d b e k)}"
  have fin: "finite ?A"
    by (rule finite_subset [OF _ taken]) auto
  show "((fs, d, b, e, numbered d b e c, c + 1), (fs, d, b, e, p, c))
          \<in> measure (\<lambda>(fs, d, b, e, p, c).
              2 * card {k. c \<le> k \<and> path_exists fs (numbered d b e k)}
                + (if path_exists fs p then 1 else 0))"
  proof (cases "path_exists fs (numbered d b e c)")
    case True
    then have "c \<in> ?A" and "c \<notin> ?B" by simp_all
    moreover have "?B \<subseteq> ?A" by auto
    ultimately have "?B \<subset> ?A" by blast
    then have "card ?B < card ?A" using fin by (rule psubset_card_mono [rotated])
    with ex True show ?thesis by simp
  next
    case False
    have "?B \<subseteq> ?A" by auto
    then have "card ?B \<le> card ?A" using fin by (rule card_mono [rotated])
    with ex False show ?thesis by simp
  qed
qed

declare unique_loop.simps [simp del]

text \<open>
  \<^verbatim>\<open>generate_output_filename(input_path, output_dir, suffix)\<close>: \<open>output_dir\<close> is a
  \<^verbatim>\<open>Path\<close> or \<^verbatim>\<open>None\<close>.
\<close>

definition generate_output_filename ::
  "filesystem \<Rightarrow> ppath \<Rightarrow> string option \<Rightarrow> string \<Rightarrow> string" where
  "generate_output_filename fs input_file output_dir sfx =
     (let output_directory = (case output_dir of Some d \<Rightarrow> d | None \<Rightarrow> parent input_file);
          base_name = stem input_file @ sfx;
          output_path = joinpath output_directory (base_name @ suffix input_file)
      in unique_loop fs output_directory base_name (suffix input_file) output_path 1)"

text \<open>
  The names the loop can return, by number: number 0 is the plain name, number
  \<open>k > 0\<close> carries \<open>_k\<close> between the base name and the extension.
\<close>

definition candidate :: "string \<Rightarrow> string \<Rightarrow> string \<Rightarrow> nat \<Rightarrow> string" where
  "candidate output_directory base_name ext k =
     (if k = 0 then joinpath output_directory (base_name @ ext)
      else numbered output_directory base_name ext k)"

definition output_name :: "ppath \<Rightarrow> string option \<Rightarrow> string \<Rightarrow> nat \<Rightarrow> string" where
  "output_name input_file output_dir sfx k =
     candidate (case output_dir of Some d \<Rightarrow> d | None \<Rightarrow> parent input_file)
       (stem input_file @ sfx) (suffix input_file) k"

definition scan_path :: ppath where
  "scan_path = \<lparr>parent = ''in'', stem = ''scan'', suffix = ''.pdf''\<rparr>"

definition out_fs :: filesystem where
  "out_fs = [(''out/scan_processed.pdf'', \<lparr>file_size = 10, contents = None\<rparr>)]"

section \<open>Statistics (pdf_processor.py)\<close>

text \<open>
  The counters of \<^verbatim>\<open>PDFProcessor.stats\<close> start at 0 and are only incremented, so
  they are natural numbers. Timestamps are seconds on the rational line. \<^verbatim>\<open>/\<close> raises
  \<^verbatim>\<open>ZeroDivisionError\<close> on a zero divisor. The quotients are floats in the source and
  exact rationals here; float division and multiplication are monotone, so a bound that
  holds for the rationals with integer end points holds for the floats.
\<close>

datatype py_error = ZeroDivisionError

definition truediv :: "rat \<Rightarrow> rat \<Rightarrow> py_error + rat" where
  "truediv a b = (if b = 0 then Inl ZeroDivisionError else Inr (a / b))"

record stats =
  files_processed :: nat
  files_with_ocr :: nat
  files_copied :: nat
  total_size_processed :: nat
  errors :: nat
  start_time :: "rat option"
  end_time :: "rat option"

record snapshot =
  counters :: stats
  total_duration :: "rat option"
  average_time_per_file :: "rat option"
  success_rate :: rat

definition initial_stats :: stats where
  "initial_stats =
     \<lparr>files_processed = 0, files_with_ocr = 0, files_copied = 0, total_size_processed = 0,
      errors = 0, start_time = None, end_time = None\<rparr>"

definition get_stats :: "stats \<Rightarrow> py_error + snapshot" where
  "get_stats st =
     (let timing =
            (case (start_time st, end_time st) of
               (Some s, Some e) \<Rightarrow>
                 (case truediv (e - s) (of_nat (max (files_processed st) 1)) of
                    Inl err \<Rightarrow> Inl err
                  | Inr avg \<Rightarrow> Inr (Some (e - s), Some avg))
             | _ \<Rightarrow> Inr (None, None))
      in case timing of
           Inl err \<Rightarrow> Inl err
         | Inr (duration, avg) \<Rightarrow>
             (case truediv (of_nat (files_processed st))
                     (of_nat (max (files_processed st + errors st) 1)) of
                Inl err \<Rightarrow> Inl err
              | Inr q \<Rightarrow>
                  Inr \<lparr>counters = st, total_duration = duration,
                       average_time_per_file = avg, success_rate = q * 100\<rparr>))"

section \<open>OCRProcessor (ocr_processor.py)\<close>

text \<open>
  \<^verbatim>\<open>process_pdf\<close> talks to the progress callback, to OCRmyPDF, to PyMuPDF, to the
  \<^verbatim>\<open>tesseract\<close> program and to the filesystem. The model records the calls in an
  event log, in the order in which they happen, and threads the filesystem through.
\<close>

record config =
  cfg_optimize :: "nat option"
  cfg_clean :: "bool option"
  cfg_deskew :: "bool option"
  cfg_remove_background :: "bool option"
  cfg_rotate_pages :: "bool option"
  cfg_skip_big :: "nat option"
  cfg_jpeg_quality :: "nat option"
  cfg_png_quality :: "nat option"
  cfg_force_ocr :: "bool option"

text \<open>The keyword arguments of \<^verbatim>\<open>ocrmypdf.ocr\<close>; \<open>None\<close> is a keyword that is not passed.\<close>

record ocr_options =
  opt_language :: string
  opt_output_type :: "string option"
  opt_optimize :: nat
  opt_clean :: bool
  opt_deskew :: bool
  opt_remove_background :: bool
  opt_rotate_pages :: bool
  opt_skip_big :: "nat option"
  opt_jpeg_quality :: "nat option"
  opt_png_quality :: "nat option"
  opt_force_ocr :: bool
  opt_skip_text :: "bool option"
  opt_redo_ocr :: "bool option"
  opt_invalidate_digital_signatures :: bool
  opt_max_image_mpixels :: "nat option"

record ocr_processor =
  language :: string
  default_config :: config

definition OCRProcessor :: "string \<Rightarrow> ocr_processor" where
  "OCRProcessor lang =
     \<lparr>language = lang,
      default_config =
        \<lparr>cfg_optimize = Some 1, cfg_clean = Some True, cfg_deskew = Some True,
         cfg_remove_background = Some False, cfg_rotate_pages = Some True,
         cfg_skip_big = Some 100, cfg_jpeg_quality = Some 85, cfg_png_quality = Some 85,
         cfg_force_ocr = None\<rparr>\<rparr>"

text \<open>\<^verbatim>\<open>config.get(key, default)\<close>.\<close>

definition dict_get :: "'a option \<Rightarrow> 'a \<Rightarrow> 'a" where
  "dict_get v d = (case v of None \<Rightarrow> d | Some x \<Rightarrow> x)"

definition primary_options :: "ocr_processor \<Rightarrow> config \<Rightarrow> ocr_options" where
  "primary_options self cfg =
     \<lparr>opt_language = language self,
      opt_output_type = Some ''pdf'',
      opt_optimize = dict_get (cfg_optimize cfg) 1,
      opt_clean = dict_get (cfg_clean cfg) True,
      opt_deskew = dict_get (cfg_deskew cfg) True,
      opt_remove_background = dict_get (cfg_remove_background cfg) False,
      opt_rotate_pages = dict_get (cfg_rotate_pages cfg) True,
      opt_skip_big = Some (dict_get (cfg_skip_big cfg) 100),
      opt_jpeg_quality = Some (dict_get (cfg_jpeg_quality cfg) 85),
      opt_png_quality = Some (dict_get (cfg_png_quality cfg) 85),
      opt_force_ocr = dict_get (cfg_force_ocr cfg) False,
      opt_skip_text = Some (\<not> dict_get (cfg_force_ocr cfg) False),
      opt_redo_ocr = Some (dict_get (cfg_force_ocr cfg) False),
      opt_invalidate_digital_signatures = True,
      opt_max_image_mpixels = Some 128\<rparr>"

definition minimal_options :: "ocr_processor \<Rightarrow> ocr_options" where
  "minimal_options self =
     \<lparr>opt_language = language self,
      opt_output_type = None,
      opt_optimize = 0,
      opt_clean = False,
      opt_deskew = False,
      opt_remove_background = False,
      opt_rotate_pages = False,
      opt_skip_big = None,
      opt_jpeg_quality = None,
      opt_png_quality = None,
      opt_force_ocr = True,
      opt_skip_text = None,
      opt_redo_ocr = None,
      opt_invalidate_digital_signatures = True,
      opt_max_image_mpixels = None\<rparr>"

text \<open>
  What the surroundings answer during one call. \<^verbatim>\<open>ocrmypdf.ocr\<close> raises or returns,
  and when it returns it has written the output file or not (the code checks afterwards).
  For the page with a given index, \<^verbatim>\<open>get_pixmap\<close> and \<^verbatim>\<open>pix.save\<close> raise or not, and
  the \<^verbatim>\<open>tesseract\<close> run leaves a one-page PDF (return code 0 and the file exists) or
  does not (another return code, no file, a timeout or another exception).
\<close>

datatype ocr_outcome = OcrRaises | OcrReturns bool

record ocr_env =
  makedirs_ok :: bool
  authenticate_empty :: bool
  save_ok :: bool
  tempdir :: string
  temp_copy_size :: nat
  ocrmypdf_ocr :: "string \<Rightarrow> ocr_options \<Rightarrow> ocr_outcome"
  ocr_output :: pdf_file
  pixmap_ok :: "nat \<Rightarrow> bool"
  tesseract_ok :: "nat \<Rightarrow> bool"
  recognized_page :: "nat \<Rightarrow> page_read"
  combine_ok :: bool
  combined_size :: nat
  unlink_ok :: bool

datatype event =
    Progress rat
  | CallOcrmypdf string string ocr_options
  | CallFallback string string
  | CallGetPixmap nat nat nat
  | CallTesseract nat
  | CallCombine "nat list" string
  | CallUnlink string

definition emit :: "bool \<Rightarrow> rat \<Rightarrow> event list" where
  "emit cb percent = (if cb then [Progress percent] else [])"

record ocr_success =
  os_input_path :: string
  os_output_path :: string
  os_input_size :: nat
  os_output_size :: nat
  os_size_change :: int
  os_language_used :: string
  os_config_used :: config

datatype ocr_result = OcrSuccess ocr_success | OcrFailure failure

text \<open>\<^verbatim>\<open>os.path.basename\<close>, \<^verbatim>\<open>os.unlink\<close> and \<^verbatim>\<open>os.path.getsize\<close>.\<close>

definition basename :: "string \<Rightarrow> string" where
  "basename p = rev (takeWhile (\<lambda>c. c \<noteq> CHR ''/'') (rev p))"

definition remove_path :: "string \<Rightarrow> filesystem \<Rightarrow> filesystem" where
  "remove_path p fs = filter (\<lambda>(q, f). q \<noteq> p) fs"

definition getsize :: "filesystem \<Rightarrow> string \<Rightarrow> nat option" where
  "getsize fs p = map_option file_size (map_of fs p)"

text \<open>
  \<^verbatim>\<open>_handle_encrypted_pdf\<close> returns the path to work on: the temporary decrypted copy
  when the document is encrypted and opens with the empty password, the original
  otherwise (also when anything in it raises).
\<close>

definition handle_encrypted_pdf ::
  "ocr_env \<Rightarrow> bool \<Rightarrow> filesystem \<Rightarrow> string \<Rightarrow> event list \<times> string \<times> filesystem" where
  "handle_encrypted_pdf env cb fs input_path =
     (case fitz_open fs input_path of
        None \<Rightarrow> (emit cb 5, input_path, fs)
      | Some doc \<Rightarrow>
          if \<not> is_encrypted doc then (emit cb 5, input_path, fs)
          else if authenticate_empty env then
            (let temp_name = ''temp_decrypted_'' @ basename input_path;
                 temp_path = joinpath (tempdir env) temp_name
             in if save_ok env
                then (emit cb 5 @ emit cb 7, temp_path,
                      (temp_path, \<lparr>file_size = temp_copy_size env,
                                   contents = Some (doc\<lparr>is_encrypted := False\<rparr>)\<rparr>) # fs)
                else (emit cb 5 @ emit cb 7, input_path, fs))
          else (emit cb 5 @ emit cb 7, input_path, fs))"

text \<open>
  The page loop of \<^verbatim>\<open>_tesseract_fallback_ocr\<close>. \<open>None\<close>: an exception left the loop.
  The progress value \<^verbatim>\<open>45 + (page_num / len(doc)) * 40\<close> is a float in the source.
\<close>

fun fallback_loop ::
  "ocr_env \<Rightarrow> bool \<Rightarrow> nat \<Rightarrow> nat list \<Rightarrow> nat list \<Rightarrow> event list \<times> nat list option" where
  "fallback_loop env cb n [] ocr_results = ([], Some ocr_results)"
| "fallback_loop env cb n (page_num # rest) ocr_results =
     (let ev = emit cb (45 + (of_nat page_num / of_nat n) * 40) @ [CallGetPixmap page_num 2 2]
      in if \<not> pixmap_ok env page_num then (ev, None)
         else (let ocr_results' = (if tesseract_ok env page_num
                                   then ocr_results @ [page_num] else ocr_results);
                   (evs, r) = fallback_loop env cb n rest ocr_results'
               in (ev @ [CallTesseract page_num] @ evs, r)))"

definition tesseract_fallback_ocr ::
  "ocr_env \<Rightarrow> bool \<Rightarrow> filesystem \<Rightarrow> string \<Rightarrow> string \<Rightarrow> event list \<times> bool \<times> filesystem" where
  "tesseract_fallback_ocr env cb fs input_path output_path =
     (case fitz_open fs input_path of
        None \<Rightarrow> (emit cb 45, False, fs)
      | Some doc \<Rightarrow>
          (let (evs, r) = fallback_loop env cb (length (pages doc)) [0 ..< length (pages doc)] []
           in case r of
                None \<Rightarrow> (emit cb 45 @ evs, False, fs)
              | Some ocr_results \<Rightarrow>
                  if ocr_results \<noteq> [] then
                    (if combine_ok env
                     then (emit cb 45 @ evs @ emit cb 85 @ [CallCombine ocr_results output_path],
                           True,
                           (output_path,
                            \<lparr>file_size = combined_size env,
                             contents = Some \<lparr>pages = map (recognized_page env) ocr_results,
                                              is_encrypted = False\<rparr>\<rparr>) # fs)
                     else (emit cb 45 @ evs @ emit cb 85 @ [CallCombine ocr_results output_path],
                           False, fs))
                  else (emit cb 45 @ evs @ emit cb 85, False, fs)))"

text \<open>
  One call of \<^verbatim>\<open>ocrmypdf.ocr(input_file, output_file, **options)\<close>: \<open>False\<close> when it
  raised.
\<close>

definition run_ocrmypdf ::
  "ocr_env \<Rightarrow> filesystem \<Rightarrow> string \<Rightarrow> string \<Rightarrow> ocr_options \<Rightarrow> event list \<times> bool \<times> filesystem" where
  "run_ocrmypdf env fs input_file output_file opts =
     (case ocrmypdf_ocr env input_file opts of
        OcrRaises \<Rightarrow> ([CallOcrmypdf input_file output_file opts], False, fs)
      | OcrReturns written \<Rightarrow>
          ([CallOcrmypdf input_file output_file opts], True,
           if written then (output_file, ocr_output env) # fs else fs))"

text \<open>
  The nested \<^verbatim>\<open>try\<close> blocks of \<^verbatim>\<open>process_pdf\<close> (lines 197 to 244). \<open>False\<close>: the
  exception "Todos los metodos de OCR fallaron" was raised.
\<close>

definition ocr_chain ::
  "ocr_env \<Rightarrow> ocr_processor \<Rightarrow> bool \<Rightarrow> filesystem \<Rightarrow> string \<Rightarrow> string \<Rightarrow> ocr_options
     \<Rightarrow> event list \<times> bool \<times> filesystem" where
  "ocr_chain env self cb fs temp_input output_path opts =
     (let (ev1, ok1, fs1) = run_ocrmypdf env fs temp_input output_path opts
      in if ok1 then (ev1, True, fs1)
         else (let (ev2, success, fs2) =
                     tesseract_fallback_ocr env cb fs1 temp_input output_path
               in if success
                  then (ev1 @ emit cb 40 @ [CallFallback temp_input output_path] @ ev2, True, fs2)
                  else (let (ev3, ok3, fs3) =
                              run_ocrmypdf env fs2 temp_input output_path (minimal_options self)
                        in (ev1 @ emit cb 40 @ [CallFallback temp_input output_path] @ ev2
                              @ emit cb 50 @ ev3,
                            ok3, fs3))))"

text \<open>
  \<^verbatim>\<open>process_pdf(input_path, output_path, progress_callback, config)\<close>. \<open>cb\<close> says
  whether a progress callback was given. The \<^verbatim>\<open>compression_ratio\<close> of the success
  dictionary is a rounded float computed from the two sizes; it is left out.
\<close>

definition process_pdf ::
  "ocr_env \<Rightarrow> ocr_processor \<Rightarrow> bool \<Rightarrow> filesystem \<Rightarrow> string \<Rightarrow> string \<Rightarrow> config option
     \<Rightarrow> event list \<times> ocr_result \<times> filesystem" where
  "process_pdf env self cb fs input_path output_path config_arg =
     (if \<not> path_exists fs input_path then ([], OcrFailure InputNotFound, fs)
      else
        (let cfg = (case config_arg of None \<Rightarrow> default_config self | Some c \<Rightarrow> c)
         in if \<not> makedirs_ok env
            then (emit cb (- 1), OcrFailure (ProcessingError OSError), fs)
            else
              (let (ev1, temp_input, fs1) = handle_encrypted_pdf env cb fs input_path;
                   (ev2, ok, fs2) =
                      ocr_chain env self cb fs1 temp_input output_path (primary_options self cfg);
                   evs = emit cb 0 @ ev1 @ emit cb 10 @ emit cb 20 @ ev2
               in if \<not> ok
                  then (evs @ emit cb (- 1), OcrFailure (ProcessingError AllOcrMethodsFailed), fs2)
                  else
                    (let (ev3, fs3) =
                           (if temp_input \<noteq> input_path \<and> path_exists fs2 temp_input
                            then ([CallUnlink temp_input],
                                  if unlink_ok env then remove_path temp_input fs2 else fs2)
                            else ([], fs2))
                     in if path_exists fs3 output_path
                        then (case (getsize fs3 output_path, getsize fs3 input_path) of
                                (Some output_size, Some input_size) \<Rightarrow>
                                  (evs @ ev3 @ emit cb 90 @ emit cb 100,
                                   OcrSuccess
                                     \<lparr>os_input_path = input_path,
                                      os_output_path = output_path,
                                      os_input_size = input_size,
                                      os_output_size = output_size,
                                      os_size_change = int output_size - int input_size,
                                      os_language_used = language self,
                                      os_config_used = cfg\<rparr>,
                                   fs3)
                              | _ \<Rightarrow>
                                  (evs @ ev3 @ emit cb 90 @ emit cb (- 1),
                                   OcrFailure (ProcessingError OSError), fs3))
                        else (evs @ ev3 @ emit cb 90, OcrFailure OutputNotGenerated, fs3)))))"


fun progress_values :: "event list \<Rightarrow> rat list" where
  "progress_values [] = []"
| "progress_values (Progress v # es) = v # progress_values es"
| "progress_values (e # es) = progress_values es"






subsection \<open>Sample inputs for the OCR processor\<close>

text \<open>
  OCRmyPDF that fails with every configuration, and OCRmyPDF that fails unless it is
  called with \<^verbatim>\<open>optimize=0\<close>; a \<^verbatim>\<open>tesseract\<close> that recognises every page but page 1,
  and one that recognises nothing.
\<close>

definition env_fallback :: ocr_env where
  "env_fallback =
     \<lparr>makedirs_ok = True, authenticate_empty = True, save_ok = True, tempdir = ''/tmp'',
      temp_copy_size = 400,
      ocrmypdf_ocr = (\<lambda>i opts. OcrRaises),
      ocr_output = \<lparr>file_size = 900, contents = None\<rparr>,
      pixmap_ok = (\<lambda>i. True),
      tesseract_ok = (\<lambda>i. i \<noteq> 1),
      recognized_page = (\<lambda>i. PageOk \<lparr>page_text = [97], image_count = 1\<rparr>),
      combine_ok = True, combined_size = 700, unlink_ok = True\<rparr>"

definition env_all_fail :: ocr_env where
  "env_all_fail = env_fallback\<lparr>tesseract_ok := (\<lambda>i. False)\<rparr>"

definition env_last_resort :: ocr_env where
  "env_last_resort =
     env_all_fail\<lparr>ocrmypdf_ocr :=
       (\<lambda>i opts. if opt_optimize opts = 0 then OcrReturns True else OcrRaises)\<rparr>"

definition scan_doc :: "nat \<Rightarrow> bool \<Rightarrow> document" where
  "scan_doc n enc = \<lparr>pages = replicate n (PageOk page_empty), is_encrypted = enc\<rparr>"

definition ocr_fs :: filesystem where
  "ocr_fs =
     [(''in/scan1.pdf'', \<lparr>file_size = 500, contents = Some (scan_doc 1 False)\<rparr>),
      (''in/scan3.pdf'', \<lparr>file_size = 1500, contents = Some (scan_doc 3 False)\<rparr>),
      (''in/secret.pdf'', \<lparr>file_size = 800, contents = Some (scan_doc 1 True)\<rparr>)]"


section \<open>PDFProcessor (pdf_processor.py)\<close>

text \<open>
  \<^verbatim>\<open>validate_pdf\<close> of the analyzer, which \<^verbatim>\<open>analyze_file\<close> calls first. \<^verbatim>\<open>lower\<close>
  acts on the ASCII letters; no other character lowers to one of \<open>.pdf\<close>.
\<close>

definition lower_char :: "char \<Rightarrow> char" where
  "lower_char c =
     (let n = (of_char c :: nat) in if 65 \<le> n \<and> n \<le> 90 then char_of (n + 32) else c)"

definition endswith :: "string \<Rightarrow> string \<Rightarrow> bool" where
  "endswith s sfx = (length sfx \<le> length s \<and> drop (length s - length sfx) s = sfx)"

definition validate_pdf :: "filesystem \<Rightarrow> string \<Rightarrow> failure option" where
  "validate_pdf fs pdf_path =
     (if \<not> path_exists fs pdf_path then Some DoesNotExist
      else if \<not> endswith (map lower_char pdf_path) ''.pdf'' then Some NotAPdf
      else (case fitz_open fs pdf_path of
              None \<Rightarrow> Some CannotOpen
            | Some doc \<Rightarrow> if length (pages doc) = 0 then Some NoPages else None))"

record pdf_processor =
  analyzer :: analyzer
  ocr_processor :: ocr_processor
  output_dir :: "string option"
  create_backups :: bool

definition PDFProcessor :: "string \<Rightarrow> string option \<Rightarrow> bool \<Rightarrow> pdf_processor" where
  "PDFProcessor lang dir backups =
     \<lparr>analyzer = PDFAnalyzer, ocr_processor = OCRProcessor lang,
      output_dir = dir, create_backups = backups\<rparr>"

text \<open>
  \<^verbatim>\<open>analyze_file\<close>: validation, then \<^verbatim>\<open>analyze_pdf\<close>. The advisory
  \<^verbatim>\<open>time_estimate\<close> added to a successful analysis is float arithmetic on the file size
  that no decision reads; it is left out.
\<close>

definition analyze_file ::
  "chartab \<Rightarrow> pdf_processor \<Rightarrow> filesystem \<Rightarrow> string \<Rightarrow> failure + analysis" where
  "analyze_file ct self fs file_path =
     (case validate_pdf fs file_path of
        Some message \<Rightarrow> Inl message
      | None \<Rightarrow> analyze_pdf ct (analyzer self) fs file_path)"

text \<open>
  What the surroundings answer during one \<^verbatim>\<open>process_file\<close>: the OCR environment, the
  timestamp of the backup (\<open>None\<close> when \<^verbatim>\<open>create_backup\<close> fails and returns
  \<^verbatim>\<open>None\<close>) and whether \<^verbatim>\<open>shutil.copy2\<close> works.
\<close>

record file_env =
  fe_ocr :: ocr_env
  fe_backup_stamp :: "string option"
  fe_copy_ok :: bool

definition create_backup ::
  "file_env \<Rightarrow> filesystem \<Rightarrow> ppath \<Rightarrow> string option \<times> filesystem" where
  "create_backup env fs source_file =
     (case map_of fs (path_str source_file) of
        None \<Rightarrow> (None, fs)
      | Some f \<Rightarrow>
          (case fe_backup_stamp env of
             None \<Rightarrow> (None, fs)
           | Some timestamp \<Rightarrow>
               (let backup_path = joinpath (parent source_file) ''backups'';
                    backup_filename =
                      stem source_file @ ''_backup_'' @ timestamp @ suffix source_file;
                    backup_file = joinpath backup_path backup_filename
                in (Some backup_file, (backup_file, f) # fs))))"

text \<open>
  The dictionary \<^verbatim>\<open>process_file\<close> returns: one of the early failure dictionaries, or
  the \<^verbatim>\<open>result\<close> dictionary, into which the OCR result is merged. \<open>Raised\<close> is the
  \<^verbatim>\<open>error_result\<close> that \<^verbatim>\<open>process_batch\<close> builds from an exception. The wall-clock
  fields \<^verbatim>\<open>processing_start\<close>, \<^verbatim>\<open>processing_end\<close> and \<^verbatim>\<open>processing_duration\<close> are
  left out.
\<close>

datatype processing_type = OcrApplied | CopyOnly

record processed =
  pr_input_path :: string
  pr_output_path :: string
  pr_analysis :: analysis
  pr_backup_path :: "string option"
  pr_success :: bool
  pr_error :: "failure option"
  pr_processing_type :: "processing_type option"
  pr_ocr_result :: "ocr_result option"
  pr_input_size :: "nat option"
  pr_output_size :: "nat option"

datatype file_result =
    EarlyFailure failure string
  | Processed processed
  | Raised string string

definition success :: "file_result \<Rightarrow> bool" where
  "success r = (case r of Processed p \<Rightarrow> pr_success p | _ \<Rightarrow> False)"

definition force_config :: "bool \<Rightarrow> config" where
  "force_config force_ocr =
     \<lparr>cfg_optimize = None, cfg_clean = None, cfg_deskew = None, cfg_remove_background = None,
      cfg_rotate_pages = None, cfg_skip_big = None, cfg_jpeg_quality = None,
      cfg_png_quality = None, cfg_force_ocr = Some force_ocr\<rparr>"

text \<open>The last part of \<^verbatim>\<open>process_file\<close>: "Actualizar estadisticas".\<close>

definition update_stats :: "stats \<Rightarrow> processed \<Rightarrow> stats" where
  "update_stats st result =
     (if pr_success result
      then st\<lparr>files_processed := files_processed st + 1,
              total_size_processed :=
                total_size_processed st + an_file_size (pr_analysis result)\<rparr>
      else st\<lparr>errors := errors st + 1\<rparr>)"

text \<open>
  \<^verbatim>\<open>process_file(input_path, output_path, force_ocr, progress_callback)\<close>, with the
  counters and the filesystem threaded through. An empty \<^verbatim>\<open>output_path\<close> counts as
  none. No step of the body raises in this model, so the outer exception handler has
  no branch here.
\<close>

definition process_file ::
  "chartab \<Rightarrow> pdf_processor \<Rightarrow> file_env \<Rightarrow> stats \<Rightarrow> filesystem \<Rightarrow> ppath \<Rightarrow> string option
     \<Rightarrow> bool \<Rightarrow> bool \<Rightarrow> event list \<times> file_result \<times> stats \<times> filesystem" where
  "process_file ct self env st fs input_file output_arg force_ocr cb =
     (let input_path = path_str input_file
      in if \<not> path_exists fs input_path
         then (emit cb 0, EarlyFailure FileNotFound input_path, st, fs)
         else
           (let output_path =
                  (case output_arg of
                     None \<Rightarrow> generate_output_filename fs input_file (output_dir self) ''_processed''
                   | Some p \<Rightarrow>
                       if p = [] then
                         generate_output_filename fs input_file (output_dir self) ''_processed''
                       else p)
            in case analyze_file ct self fs input_path of
                 Inl message \<Rightarrow> (emit cb 0 @ emit cb 10, EarlyFailure message input_path, st, fs)
               | Inr analysis \<Rightarrow>
                   (let (backup_path, fs1) =
                          (if create_backups self \<and> \<not> force_ocr
                           then create_backup env fs input_file else (None, fs));
                        result = \<lparr>pr_input_path = input_path, pr_output_path = output_path,
                                  pr_analysis = analysis, pr_backup_path = backup_path,
                                  pr_success = False, pr_error = None,
                                  pr_processing_type = None, pr_ocr_result = None,
                                  pr_input_size = None, pr_output_size = None\<rparr>;
                        ev = emit cb 0 @ emit cb 10 @ emit cb 20;
                        needs_ocr = (\<not> an_has_embedded_text analysis \<or> force_ocr)
                    in if needs_ocr then
                         (let (ev_ocr, ocr_result, fs2) =
                                process_pdf (fe_ocr env) (ocr_processor self) cb fs1
                                  input_path output_path (Some (force_config force_ocr));
                              result' =
                                (case ocr_result of
                                   OcrSuccess s \<Rightarrow>
                                     result\<lparr>pr_success := True,
                                            pr_ocr_result := Some ocr_result,
                                            pr_input_size := Some (os_input_size s),
                                            pr_output_size := Some (os_output_size s),
                                            pr_processing_type := Some OcrApplied\<rparr>
                                 | OcrFailure e \<Rightarrow>
                                     result\<lparr>pr_success := False, pr_error := Some e,
                                            pr_ocr_result := Some ocr_result,
                                            pr_processing_type := Some OcrApplied\<rparr>);
                              st' = (if pr_success result'
                                     then st\<lparr>files_with_ocr := files_with_ocr st + 1\<rparr> else st)
                          in (ev @ emit cb 30 @ ev_ocr, Processed result',
                              update_stats st' result', fs2))
                       else
                         (if fe_copy_ok env then
                            (case map_of fs1 input_path of
                               Some f \<Rightarrow>
                                 (let result' =
                                        result\<lparr>pr_success := True,
                                               pr_processing_type := Some CopyOnly,
                                               pr_input_size := Some (file_size f),
                                               pr_output_size := Some (file_size f)\<rparr>;
                                      st' = st\<lparr>files_copied := files_copied st + 1\<rparr>
                                  in (ev @ emit cb 50 @ emit cb 100, Processed result',
                                      update_stats st' result', (output_path, f) # fs1))
                             | None \<Rightarrow>
                                 (let result' = result\<lparr>pr_success := False,
                                                        pr_error := Some CopyError\<rparr>
                                  in (ev @ emit cb 50, Processed result',
                                      update_stats st result', fs1)))
                          else
                            (let result' = result\<lparr>pr_success := False,
                                                   pr_error := Some CopyError\<rparr>
                             in (ev @ emit cb 50, Processed result',
                                 update_stats st result', fs1))))))"

text \<open>
  \<^verbatim>\<open>process_batch\<close>. The operation on one file is a parameter of the loop, so that
  the \<^verbatim>\<open>except\<close> branch of the loop body has a meaning: the operation returns its
  events, and either a result or the message of the exception it raised, together with
  the counters and the filesystem as it left them. The progress and completion
  callbacks are taken to return normally. The callback arguments are logged
  before the float arithmetic that turns them into a percentage:
  \<open>Overall i total\<close> stands for \<^verbatim>\<open>int((i / total_files) * 100)\<close> and
  \<open>FileProgress i total percent\<close> for
  \<^verbatim>\<open>int((i * file_weight) + (percent * file_weight / 100))\<close>.
\<close>

datatype batch_event =
    Overall nat nat
  | FileProgress nat nat rat
  | Finished nat nat
  | Completion "file_result list" "py_error + snapshot"

type_synonym file_op =
  "nat \<Rightarrow> ppath \<Rightarrow> stats \<Rightarrow> filesystem
     \<Rightarrow> (event list \<times> (string + file_result)) \<times> stats \<times> filesystem"

fun batch_loop ::
  "file_op \<Rightarrow> bool \<Rightarrow> nat \<Rightarrow> nat \<Rightarrow> ppath list \<Rightarrow> stats \<Rightarrow> filesystem \<Rightarrow> file_result list
     \<Rightarrow> batch_event list \<times> file_result list \<times> stats \<times> filesystem" where
  "batch_loop pf cb total_files i [] st fs results = ([], results, st, fs)"
| "batch_loop pf cb total_files i (file_path # rest) st fs results =
     (let ((evs, outcome), st1, fs1) = pf i file_path st fs;
          result = (case outcome of
                      Inr r \<Rightarrow> r
                    | Inl e \<Rightarrow> Raised e (path_str file_path));
          (evr, rs, st2, fs2) =
             batch_loop pf cb total_files (i + 1) rest st1 fs1 (results @ [result])
      in ((if cb then Overall i total_files
                        # map (FileProgress i total_files) (progress_values evs)
           else []) @ evr,
          rs, st2, fs2))"

definition process_batch_with ::
  "file_op \<Rightarrow> bool \<Rightarrow> bool \<Rightarrow> rat \<Rightarrow> rat \<Rightarrow> ppath list \<Rightarrow> stats \<Rightarrow> filesystem
     \<Rightarrow> batch_event list \<times> file_result list \<times> stats \<times> filesystem" where
  "process_batch_with pf cb completion t_start t_end file_paths st fs =
     (let total_files = length file_paths;
          (evs, results, st1, fs1) =
             batch_loop pf cb total_files 0 file_paths (st\<lparr>start_time := Some t_start\<rparr>) fs [];
          st2 = st1\<lparr>end_time := Some t_end\<rparr>;
          successful = length (filter success results)
      in (evs @ (if cb then [Finished successful total_files] else [])
              @ (if completion then [Completion results (get_stats st2)] else []),
          results, st2, fs1))"

text \<open>
  The operation \<^verbatim>\<open>process_batch\<close> runs on each file:
  \<^verbatim>\<open>self.process_file(file_path, progress_callback=file_progress)\<close>, with the
  surroundings of the \<open>i\<close>-th call given by \<open>envs i\<close>.
\<close>

definition file_op_of :: "chartab \<Rightarrow> pdf_processor \<Rightarrow> (nat \<Rightarrow> file_env) \<Rightarrow> file_op" where
  "file_op_of ct self envs i file_path st fs =
     (let (evs, r, st', fs') = process_file ct self (envs i) st fs file_path None False True
      in ((evs, Inr r), st', fs'))"

definition process_batch ::
  "chartab \<Rightarrow> pdf_processor \<Rightarrow> (nat \<Rightarrow> file_env) \<Rightarrow> bool \<Rightarrow> bool \<Rightarrow> rat \<Rightarrow> rat \<Rightarrow> ppath list
     \<Rightarrow> stats \<Rightarrow> filesystem \<Rightarrow> batch_event list \<times> file_result list \<times> stats \<times> filesystem" where
  "process_batch ct self envs = process_batch_with (file_op_of ct self envs)"

text \<open>
  To state what ends up in each slot of the result list: the state in which the loop
  reaches a file, and the entry the loop body appends for it.
\<close>

fun loop_state ::
  "file_op \<Rightarrow> nat \<Rightarrow> ppath list \<Rightarrow> stats \<times> filesystem \<Rightarrow> stats \<times> filesystem" where
  "loop_state pf i [] s = s"
| "loop_state pf i (p # ps) s = loop_state pf (i + 1) ps (snd (pf i p (fst s) (snd s)))"

definition slot :: "file_op \<Rightarrow> nat \<Rightarrow> ppath \<Rightarrow> stats \<times> filesystem \<Rightarrow> file_result" where
  "slot pf i p s =
     (case snd (fst (pf i p (fst s) (snd s))) of
        Inr r \<Rightarrow> r
      | Inl e \<Rightarrow> Raised e (path_str p))"

definition result_analysis :: "file_result \<Rightarrow> analysis option" where
  "result_analysis r = (case r of Processed p \<Rightarrow> Some (pr_analysis p) | _ \<Rightarrow> None)"

definition result_type :: "file_result \<Rightarrow> processing_type option" where
  "result_type r = (case r of Processed p \<Rightarrow> pr_processing_type p | _ \<Rightarrow> None)"

subsection \<open>Sample inputs for the processor\<close>

definition in_path :: "string \<Rightarrow> ppath" where
  "in_path name = \<lparr>parent = ''in'', stem = name, suffix = ''.pdf''\<rparr>"

definition batch_fs :: filesystem where
  "batch_fs =
     (''in/text.pdf'', \<lparr>file_size = 1000, contents = Some doc_one\<rparr>)
     # (''in/junk.pdf'', \<lparr>file_size = 7, contents = None\<rparr>)
     # ocr_fs"

definition quiet_env :: file_env where
  "quiet_env = \<lparr>fe_ocr = env_last_resort, fe_backup_stamp = None, fe_copy_ok = True\<rparr>"


section \<open>Properties of the analyzer\<close>

lemma collect_text_ok:
  "collect_text (map PageOk ps) acc = Some (acc @ concat (map page_text ps))"
  by (induction ps arbitrary: acc) simp_all



lemma analyze_pages_loop_ok:
  "analyze_pages_loop ct n (map PageOk ps) acc =
     Some (acc @ map (\<lambda>(i, p). info_of ct i p) (zip [n ..< n + length ps] ps))"
proof (induction ps arbitrary: n acc)
  case Nil
  then show ?case by simp
next
  case (Cons p ps)
  have "[n ..< n + length (p # ps)] = n # [Suc n ..< Suc n + length ps]"
    by (simp add: upt_rec)
  with Cons show ?case
    by (simp add: Let_def info_of_def)
qed

text \<open>
  C3. On a document that opens and whose sampled pages can be read, has_embedded_text
  looks at the first min(5, page_count) pages only, keeps the alphanumeric and whitespace
  characters of their concatenated text, strips the result and answers true exactly when
  more than min_text_length characters remain; the second component is the total page
  count. The default threshold is 50.
\<close>

theorem has_embedded_text_spec:
  assumes "fitz_open fs pdf_path = Some doc"
    and "take (min 5 (length (pages doc))) (pages doc) = map PageOk ps"
  shows "has_embedded_text ct self fs pdf_path =
           (min_text_length self <
              int (length (strip ct (filter (\<lambda>c. isalnum ct c \<or> isspace ct c)
                                         (concat (map page_text ps))))),
            length (pages doc))
         \<and> length ps = min 5 (length (pages doc))
         \<and> min_text_length PDFAnalyzer = 50"
proof -
  have "length ps = length (take (min 5 (length (pages doc))) (pages doc))"
    using assms(2) by simp
  then have len: "length ps = min 5 (length (pages doc))" by simp
  show ?thesis
    using assms len
    by (simp add: has_embedded_text_def collect_text_ok Let_def PDFAnalyzer_def)
qed

theorem has_embedded_text_spec_witness:
  "fitz_open sample_fs ''one.pdf'' = Some doc_one
   \<and> take (min 5 (length (pages doc_one))) (pages doc_one) = map PageOk [page_51]
   \<and> has_embedded_text ascii_a_blank PDFAnalyzer sample_fs ''one.pdf'' = (True, 1)"
proof -
  have h1: "fitz_open sample_fs ''one.pdf'' = Some doc_one"
    by (simp add: fitz_open_def sample_fs_def)
  have h2: "take (min 5 (length (pages doc_one))) (pages doc_one) = map PageOk [page_51]"
    by (simp add: doc_one_def)
  have v: "length (strip ascii_a_blank
             (filter (\<lambda>c. isalnum ascii_a_blank c \<or> isspace ascii_a_blank c)
                (concat (map page_text [page_51])))) = 51"
    by (simp add: strip_def ascii_a_blank_def page_51_def)
  from has_embedded_text_spec [OF h1 h2, of ascii_a_blank PDFAnalyzer] v h1 h2
  show ?thesis by (simp add: doc_one_def)
qed

lemma count_meaningful:
  "length is = length ps \<Longrightarrow>
   length (filter has_meaningful_text (map (\<lambda>(i, p). info_of ct i p) (zip is ps)))
     = length (filter (\<lambda>p. 20 < length (strip ct (page_text p))) ps)"
proof (induction ps arbitrary: "is")
  case Nil
  then show ?case by simp
next
  case (Cons p ps)
  then obtain i js where "is = i # js" "length js = length ps"
    by (cases "is") auto
  with Cons.IH [of js] show ?case
    by (simp add: info_of_def)
qed

lemma analyze_pages_readable:
  assumes "fitz_open fs pdf_path = Some doc"
    and "take (min 10 (length (pages doc))) (pages doc) = map PageOk ps"
  shows "analyze_pages ct fs pdf_path 10
           = map (\<lambda>(i, p). info_of ct i p) (zip [0 ..< length ps] ps)"
  using assms analyze_pages_loop_ok [of ct 0 ps "[]"]
  by (simp add: analyze_pages_def Let_def)

lemma coverage_readable:
  assumes "fitz_open fs pdf_path = Some doc"
    and "take (min 10 (length (pages doc))) (pages doc) = map PageOk ps"
  shows "calculate_text_coverage (analyze_pages ct fs pdf_path 10)
           = (if ps = [] then 0
              else of_nat (length (filter (\<lambda>p. 20 < length (strip ct (page_text p))) ps))
                     / of_nat (length ps) * 100)"
  using count_meaningful [of "[0 ..< length ps]" ps ct]
  by (simp add: analyze_pages_readable [OF assms] calculate_text_coverage_def Let_def)

lemma fitz_open_exists:
  "fitz_open fs p = Some doc \<Longrightarrow> \<exists>f. map_of fs p = Some f"
  by (auto simp: fitz_open_def split: option.splits)

text \<open>
  C7 (as amended). On a document whose first min(10, page_count) pages can be read, the
  analysis succeeds, text_coverage is the percentage of those pages whose stripped text is
  longer than 20 characters (0 when there is no page), and the recommendation follows
  the table: without embedded text, OCR required; with embedded text, no OCR needed when
  coverage > 80, partial OCR suggested when 50 < coverage <= 80, OCR recommended when
  coverage <= 50.
\<close>

theorem recommendation_table:
  assumes "fitz_open fs pdf_path = Some doc"
    and "take (min 10 (length (pages doc))) (pages doc) = map PageOk ps"
  shows "\<exists>r. analyze_pdf ct self fs pdf_path = Inr r
           \<and> length ps = min 10 (length (pages doc))
           \<and> an_text_coverage r
               = (if ps = [] then 0
                  else of_nat (length (filter (\<lambda>p. 20 < length (strip ct (page_text p))) ps))
                         / of_nat (length ps) * 100)
           \<and> an_recommendation r
               = (if \<not> an_has_embedded_text r then OcrRequired
                  else if 80 < an_text_coverage r then NoOcrNeeded
                  else if 50 < an_text_coverage r then PartialOcrSuggested
                  else OcrRecommended)"
proof -
  obtain f where f: "map_of fs pdf_path = Some f"
    using fitz_open_exists [OF assms(1)] by blast
  have "length ps = length (take (min 10 (length (pages doc))) (pages doc))"
    using assms(2) by simp
  then have len: "length ps = min 10 (length (pages doc))" by simp
  obtain has_text page_count
    where het: "has_embedded_text ct self fs pdf_path = (has_text, page_count)"
    by (cases "has_embedded_text ct self fs pdf_path")
  let ?pa = "analyze_pages ct fs pdf_path 10"
  let ?r = "\<lparr>an_file_path = pdf_path, an_file_size = file_size f,
             an_page_count = page_count, an_has_embedded_text = has_text,
             an_text_coverage = calculate_text_coverage ?pa,
             an_recommendation = get_recommendation has_text ?pa,
             an_detailed_info = get_detailed_info fs pdf_path,
             an_page_analysis = ?pa, an_processing_needed = (\<not> has_text)\<rparr>"
  have r: "analyze_pdf ct self fs pdf_path = Inr ?r"
    using f het by (simp add: analyze_pdf_def Let_def)
  have cov: "an_text_coverage ?r
               = (if ps = [] then 0
                  else of_nat (length (filter (\<lambda>p. 20 < length (strip ct (page_text p))) ps))
                         / of_nat (length ps) * 100)"
    using coverage_readable [OF assms, of ct] by simp
  have tab: "an_recommendation ?r
               = (if \<not> an_has_embedded_text ?r then OcrRequired
                  else if 80 < an_text_coverage ?r then NoOcrNeeded
                  else if 50 < an_text_coverage ?r then PartialOcrSuggested
                  else OcrRecommended)"
    by (simp add: get_recommendation_def Let_def)
  from r len cov tab show ?thesis by blast
qed

theorem recommendation_table_witness:
  "fitz_open sample_fs ''half.pdf'' = Some doc_half
   \<and> take (min 10 (length (pages doc_half))) (pages doc_half) = map PageOk [page_60, page_empty]
   \<and> (\<exists>r. analyze_pdf ascii_a_blank PDFAnalyzer sample_fs ''half.pdf'' = Inr r
          \<and> an_text_coverage r = 50)"
proof -
  have h1: "fitz_open sample_fs ''half.pdf'' = Some doc_half"
    by (simp add: fitz_open_def sample_fs_def)
  have h2: "take (min 10 (length (pages doc_half))) (pages doc_half)
              = map PageOk [page_60, page_empty]"
    by (simp add: doc_half_def)
  from recommendation_table [OF h1 h2, of ascii_a_blank PDFAnalyzer] h1 h2
  show ?thesis
    by (auto simp: strip_def ascii_a_blank_def page_60_def page_empty_def)
qed

text \<open>
  C7 as stated puts a coverage of exactly 50 in the row "50 to 80: partial OCR
  suggested". The two-page sample has embedded text and a coverage of exactly 50, and the
  code answers "OCR recommended".
\<close>

theorem recommendation_at_50_counterexample:
  "fst (has_embedded_text ascii_a_blank PDFAnalyzer sample_fs ''half.pdf'')
   \<and> calculate_text_coverage (analyze_pages ascii_a_blank sample_fs ''half.pdf'' 10) = 50
   \<and> get_recommendation
         (fst (has_embedded_text ascii_a_blank PDFAnalyzer sample_fs ''half.pdf''))
         (analyze_pages ascii_a_blank sample_fs ''half.pdf'' 10) = OcrRecommended
   \<and> OcrRecommended \<noteq> PartialOcrSuggested"
proof -
  have pa: "analyze_pages ascii_a_blank sample_fs ''half.pdf'' 10
              = [info_of ascii_a_blank 0 page_60, info_of ascii_a_blank 1 page_empty]"
    by (simp add: analyze_pages_def fitz_open_def sample_fs_def doc_half_def Let_def info_of_def)
  have m1: "has_meaningful_text (info_of ascii_a_blank n page_60)" for n
    by (simp add: info_of_def strip_def ascii_a_blank_def page_60_def)
  have m2: "\<not> has_meaningful_text (info_of ascii_a_blank n page_empty)" for n
    by (simp add: info_of_def strip_def page_empty_def)
  have cov: "calculate_text_coverage (analyze_pages ascii_a_blank sample_fs ''half.pdf'' 10) = 50"
    by (simp add: pa calculate_text_coverage_def m1 m2)
  have ht: "fst (has_embedded_text ascii_a_blank PDFAnalyzer sample_fs ''half.pdf'')"
    by (simp add: has_embedded_text_def fitz_open_def sample_fs_def doc_half_def Let_def
        PDFAnalyzer_def strip_def ascii_a_blank_def page_60_def page_empty_def)
  show ?thesis
    using cov ht by (simp add: get_recommendation_def)
qed


section \<open>Properties of the statistics\<close>

text \<open>
  C8. A statistics snapshot is always produced (no division by zero, also with both
  counters at 0); it is computed from the counters alone; its success_rate is
  files_processed / (files_processed + errors) * 100 when a file has been counted and 0
  when none has; and the rate lies between 0 and 100.
\<close>

theorem success_rate_spec:
  "\<exists>snap. get_stats st = Inr snap
     \<and> counters snap = st
     \<and> success_rate snap
         = (if files_processed st + errors st = 0 then 0
            else of_nat (files_processed st) / of_nat (files_processed st + errors st) * 100)
     \<and> 0 \<le> success_rate snap \<and> success_rate snap \<le> 100"
proof -
  let ?n = "files_processed st" and ?d = "max (files_processed st + errors st) 1"
  have d: "(of_nat ?d :: rat) \<noteq> 0" and a: "(of_nat (max ?n 1) :: rat) \<noteq> 0"
    by simp_all
  have "\<exists>duration avg.
          (case (start_time st, end_time st) of
             (Some s, Some e) \<Rightarrow>
               (case truediv (e - s) (of_nat (max ?n 1)) of
                  Inl err \<Rightarrow> Inl err
                | Inr avg \<Rightarrow> Inr (Some (e - s), Some avg))
           | _ \<Rightarrow> Inr (None, None)) = Inr (duration, avg)"
    using a by (cases "start_time st"; cases "end_time st") (simp_all add: truediv_def)
  then obtain duration avg where
    t: "(case (start_time st, end_time st) of
           (Some s, Some e) \<Rightarrow>
             (case truediv (e - s) (of_nat (max ?n 1)) of
                Inl err \<Rightarrow> Inl err
              | Inr avg \<Rightarrow> Inr (Some (e - s), Some avg))
         | _ \<Rightarrow> Inr (None, None)) = Inr (duration, avg)"
    by blast
  let ?snap = "\<lparr>counters = st, total_duration = duration, average_time_per_file = avg,
                success_rate = of_nat ?n / of_nat ?d * 100\<rparr>"
  have g: "get_stats st = Inr ?snap"
    unfolding get_stats_def Let_def t using d by (simp add: truediv_def)
  have le: "(of_nat ?n :: rat) \<le> of_nat ?d"
    unfolding of_nat_le_iff by simp
  have pos: "(0 :: rat) < of_nat ?d"
    unfolding of_nat_0_less_iff by simp
  define q :: rat where "q = of_nat ?n / of_nat ?d"
  have "0 \<le> q"
    unfolding q_def by simp
  then have lo: "0 \<le> q * 100"
    by simp
  have "q \<le> of_nat ?d / of_nat ?d"
    unfolding q_def using le pos by (intro divide_right_mono) simp_all
  also have "\<dots> = 1"
    using d by (rule divide_self)
  finally have hi: "q * 100 \<le> 100"
    by simp
  have eq: "(of_nat ?n :: rat) / of_nat ?d * 100
              = (if ?n + errors st = 0 then 0
                 else of_nat ?n / of_nat (?n + errors st) * 100)"
    by (simp add: max_def)
  from g lo hi eq show ?thesis
    unfolding q_def by (intro exI [of _ ?snap]) simp
qed

section \<open>Properties of the output names\<close>

lemma unique_loop_result:
  "p = candidate d b e j \<Longrightarrow> c = j + 1 \<Longrightarrow>
   \<exists>k\<ge>j. unique_loop fs d b e p c = candidate d b e k
     \<and> \<not> path_exists fs (candidate d b e k)
     \<and> (\<forall>i. j \<le> i \<and> i < k \<longrightarrow> path_exists fs (candidate d b e i))"
proof (induction fs d b e p c arbitrary: j rule: unique_loop.induct)
  case (1 fs d b e p c)
  show ?case
  proof (cases "path_exists fs p")
    case False
    with "1.prems" show ?thesis
      by (subst unique_loop.simps) (auto intro!: exI [of _ j])
  next
    case True
    have n: "numbered d b e c = candidate d b e (j + 1)"
      using "1.prems" by (simp add: candidate_def)
    from "1.IH" [OF True n] "1.prems" obtain k where
      k: "j + 1 \<le> k"
        "unique_loop fs d b e (numbered d b e c) (c + 1) = candidate d b e k"
        "\<not> path_exists fs (candidate d b e k)"
        "\<forall>i. j + 1 \<le> i \<and> i < k \<longrightarrow> path_exists fs (candidate d b e i)"
      by auto
    have "path_exists fs (candidate d b e i)" if "j \<le> i" "i < k" for i
    proof (cases "i = j")
      case True
      with \<open>path_exists fs p\<close> "1.prems" show ?thesis by simp
    next
      case False
      with that k(4) show ?thesis by simp
    qed
    with k True show ?thesis
      by (subst unique_loop.simps) (auto intro!: exI [of _ k])
  qed
qed

lemma unique_loop_cong:
  "\<forall>q. path_exists fs1 q = path_exists fs q \<Longrightarrow>
   unique_loop fs1 d b e p c = unique_loop fs d b e p c"
proof (induction fs d b e p c rule: unique_loop.induct)
  case (1 fs d b e p c)
  show ?case
  proof (cases "path_exists fs p")
    case True
    with "1.prems" have "path_exists fs1 p" by simp
    with True "1.IH" [OF True "1.prems"] show ?thesis
      by (simp add: unique_loop.simps [of fs1 d b e p c] unique_loop.simps [of fs d b e p c])
  next
    case False
    with "1.prems" have "\<not> path_exists fs1 p" by simp
    with False show ?thesis
      by (simp add: unique_loop.simps [of fs1 d b e p c] unique_loop.simps [of fs d b e p c])
  qed
qed

lemma generate_output_filename_least:
  "\<exists>k. generate_output_filename fs inp dir sfx = output_name inp dir sfx k
     \<and> \<not> path_exists fs (output_name inp dir sfx k)
     \<and> (\<forall>i<k. path_exists fs (output_name inp dir sfx i))"
proof -
  let ?d = "case dir of Some d \<Rightarrow> d | None \<Rightarrow> parent inp"
  let ?b = "stem inp @ sfx" and ?e = "suffix inp"
  have "joinpath ?d (?b @ ?e) = candidate ?d ?b ?e 0"
    by (simp add: candidate_def)
  from unique_loop_result [OF this, of 1 fs] show ?thesis
    by (simp add: generate_output_filename_def output_name_def Let_def)
qed

text \<open>
  C9. The name is a function of the arguments and of which paths exist: a second call
  with the same paths present returns the same path. The returned path is the first of
  the candidates (the plain name, then the names with _1, _2, ...) that does not exist.
  Once a file exists at the returned path, the next call returns a candidate with a
  greater number, hence with a numeric suffix, which does not exist either.
\<close>

theorem generate_output_filename_unique:
  assumes same: "\<forall>q. path_exists fs1 q = path_exists fs q"
    and written: "\<forall>q. path_exists fs2 q
                    = (q = generate_output_filename fs inp dir sfx \<or> path_exists fs q)"
  shows "generate_output_filename fs1 inp dir sfx = generate_output_filename fs inp dir sfx
         \<and> (\<exists>k. generate_output_filename fs inp dir sfx = output_name inp dir sfx k
               \<and> \<not> path_exists fs (output_name inp dir sfx k)
               \<and> (\<forall>i<k. path_exists fs (output_name inp dir sfx i))
               \<and> (\<exists>n>k. generate_output_filename fs2 inp dir sfx = output_name inp dir sfx n
                      \<and> \<not> path_exists fs2 (output_name inp dir sfx n)
                      \<and> (\<forall>i<n. path_exists fs2 (output_name inp dir sfx i))))"
proof -
  have idem: "generate_output_filename fs1 inp dir sfx = generate_output_filename fs inp dir sfx"
    using unique_loop_cong [OF same] by (simp add: generate_output_filename_def Let_def)
  obtain k where k: "generate_output_filename fs inp dir sfx = output_name inp dir sfx k"
      "\<not> path_exists fs (output_name inp dir sfx k)"
      "\<forall>i<k. path_exists fs (output_name inp dir sfx i)"
    using generate_output_filename_least [of fs inp dir sfx] by blast
  obtain n where n: "generate_output_filename fs2 inp dir sfx = output_name inp dir sfx n"
      "\<not> path_exists fs2 (output_name inp dir sfx n)"
      "\<forall>i<n. path_exists fs2 (output_name inp dir sfx i)"
    using generate_output_filename_least [of fs2 inp dir sfx] by blast
  have "path_exists fs2 (output_name inp dir sfx i)" if "i \<le> k" for i
    using that k written by (cases "i = k") auto
  with n(2) have "k < n"
    by (meson not_le_imp_less)
  with k n idem show ?thesis by blast
qed

theorem generate_output_filename_unique_witness:
  "(\<forall>q. path_exists out_fs q = path_exists out_fs q)
   \<and> (\<forall>q. path_exists ((''out/scan_processed_1.pdf'', \<lparr>file_size = 0, contents = None\<rparr>) # out_fs) q
          = (q = generate_output_filename out_fs scan_path (Some ''out'') ''_processed''
             \<or> path_exists out_fs q))
   \<and> generate_output_filename out_fs scan_path (Some ''out'') ''_processed''
       = ''out/scan_processed_1.pdf''
   \<and> (\<exists>n>0. generate_output_filename
               ((''out/scan_processed_1.pdf'', \<lparr>file_size = 0, contents = None\<rparr>) # out_fs)
               scan_path (Some ''out'') ''_processed''
             = output_name scan_path (Some ''out'') ''_processed'' n)"
proof -
  let ?fs2 = "(''out/scan_processed_1.pdf'', \<lparr>file_size = 0, contents = None\<rparr>) # out_fs"
  have r: "generate_output_filename out_fs scan_path (Some ''out'') ''_processed''
             = ''out/scan_processed_1.pdf''"
    by code_simp
  have h1: "\<forall>q. path_exists out_fs q = path_exists out_fs q" by simp
  have h2: "\<forall>q. path_exists ?fs2 q
              = (q = generate_output_filename out_fs scan_path (Some ''out'') ''_processed''
                 \<or> path_exists out_fs q)"
    unfolding r by (auto simp: path_exists_def)
  from generate_output_filename_unique [OF h1 h2] obtain k n where
    "k < n" "generate_output_filename ?fs2 scan_path (Some ''out'') ''_processed''
               = output_name scan_path (Some ''out'') ''_processed'' n"
    by blast
  then have "\<exists>n>0. generate_output_filename ?fs2 scan_path (Some ''out'') ''_processed''
               = output_name scan_path (Some ''out'') ''_processed'' n"
    by (intro exI [of _ n]) simp
  with h1 h2 r show ?thesis by blast
qed

section \<open>Properties of the OCR processor\<close>




lemma progress_values_append:
  "progress_values (xs @ ys) = progress_values xs @ progress_values ys"
  by (induction xs rule: progress_values.induct) simp_all











text \<open>
  C6. The primary strategy fails, the fallback processes the single page, recognises
  nothing and fails after reporting 85, and the last attempt reports 50 before it
  succeeds: the percentages handed to the callback go down from 85 to 50.
\<close>

theorem progress_goes_down:
  "progress_values (fst (process_pdf env_last_resort (OCRProcessor ''spa'') True ocr_fs
                           ''in/scan1.pdf'' ''out/scan1.pdf'' None))
     = [0, 5, 10, 20, 40, 45, 45, 85, 50, 90, 100]
   \<and> \<not> sorted (progress_values (fst (process_pdf env_last_resort (OCRProcessor ''spa'') True
                                        ocr_fs ''in/scan1.pdf'' ''out/scan1.pdf'' None)))"
  by code_simp

section \<open>Properties of the processor\<close>

lemma analyze_pdf_processing_needed:
  "analyze_pdf ct a fs p = Inr r \<Longrightarrow> an_processing_needed r = (\<not> an_has_embedded_text r)"
  by (auto simp: analyze_pdf_def Let_def split: option.splits prod.splits)

lemma analyze_file_is_analyze_pdf:
  "analyze_file ct self fs p = Inr a \<Longrightarrow> analyze_pdf ct (analyzer self) fs p = Inr a"
  by (auto simp: analyze_file_def split: option.splits)

text \<open>
  C2 (as amended). The analysis has no force_ocr input: its processing_needed field is
  NOT has_embedded_text. The decision of process_file is
  needs_ocr = (NOT has_embedded_text OR force_ocr): the result is marked ocr_applied
  exactly when this holds, and copy_only only when it does not. The two agree when
  force_ocr is false.
\<close>

theorem needs_ocr_decision:
  assumes "process_file ct self env st fs input_file output_arg force_ocr cb
             = (evs, Processed r, st', fs')"
  shows "analyze_pdf ct (analyzer self) fs (path_str input_file) = Inr (pr_analysis r)
         \<and> an_processing_needed (pr_analysis r) = (\<not> an_has_embedded_text (pr_analysis r))
         \<and> ((pr_processing_type r = Some OcrApplied)
              = (\<not> an_has_embedded_text (pr_analysis r) \<or> force_ocr))
         \<and> (pr_processing_type r = Some CopyOnly
              \<longrightarrow> an_has_embedded_text (pr_analysis r) \<and> \<not> force_ocr)
         \<and> (\<not> force_ocr
              \<longrightarrow> (pr_processing_type r = Some OcrApplied) = an_processing_needed (pr_analysis r))"
proof -
  let ?p = "path_str input_file"
  from assms have ex: "path_exists fs ?p"
    by (auto simp: process_file_def Let_def split: if_splits)
  from assms ex obtain a where a: "analyze_file ct self fs ?p = Inr a"
    by (cases "analyze_file ct self fs ?p") (auto simp: process_file_def Let_def)
  have an: "pr_analysis r = a"
    and ty: "(pr_processing_type r = Some OcrApplied) = (\<not> an_has_embedded_text a \<or> force_ocr)"
    and cp: "pr_processing_type r = Some CopyOnly \<longrightarrow> an_has_embedded_text a \<and> \<not> force_ocr"
    using assms ex a
    by (auto simp: process_file_def Let_def
        split: if_splits prod.splits option.splits ocr_result.splits)
  note pdf = analyze_file_is_analyze_pdf [OF a]
  note pn = analyze_pdf_processing_needed [OF pdf]
  from an ty cp pdf pn show ?thesis
    by simp
qed

theorem needs_ocr_decision_witness:
  "map_option an_has_embedded_text
     (result_analysis (fst (snd (process_file ascii_a_blank
        (PDFProcessor ''spa'' (Some ''out'') True) quiet_env initial_stats batch_fs
        (in_path ''scan1'') None False True)))) = Some False
   \<and> result_type (fst (snd (process_file ascii_a_blank
        (PDFProcessor ''spa'' (Some ''out'') True) quiet_env initial_stats batch_fs
        (in_path ''scan1'') None False True))) = Some OcrApplied"
proof -
  let ?X = "process_file ascii_a_blank (PDFProcessor ''spa'' (Some ''out'') True) quiet_env
              initial_stats batch_fs (in_path ''scan1'') None False True"
  have a: "map_option an_has_embedded_text (result_analysis (fst (snd ?X))) = Some False"
    by code_simp
  then obtain r where r: "fst (snd ?X) = Processed r"
    by (cases "fst (snd ?X)") (simp_all add: result_analysis_def)
  have "?X = (fst ?X, fst (snd ?X), fst (snd (snd ?X)), snd (snd (snd ?X)))"
    by simp
  then have run: "?X = (fst ?X, Processed r, fst (snd (snd ?X)), snd (snd (snd ?X)))"
    using r by simp
  from needs_ocr_decision [OF run] a r show ?thesis
    by (simp add: result_analysis_def result_type_def)
qed

text \<open>
  C2 as stated also wants processing_needed to follow force_ocr. A document with
  embedded text processed with force_ocr = True is sent through OCR (needs_ocr holds),
  while the processing_needed field of its analysis is False.
\<close>

theorem processing_needed_ignores_force_counterexample:
  "map_option an_has_embedded_text
     (result_analysis (fst (snd (process_file ascii_a_blank
        (PDFProcessor ''spa'' (Some ''out'') True) quiet_env initial_stats batch_fs
        (in_path ''text'') None True True)))) = Some True
   \<and> map_option an_processing_needed
       (result_analysis (fst (snd (process_file ascii_a_blank
          (PDFProcessor ''spa'' (Some ''out'') True) quiet_env initial_stats batch_fs
          (in_path ''text'') None True True)))) = Some False
   \<and> result_type (fst (snd (process_file ascii_a_blank
        (PDFProcessor ''spa'' (Some ''out'') True) quiet_env initial_stats batch_fs
        (in_path ''text'') None True True))) = Some OcrApplied"
  by code_simp

lemma batch_loop_spec:
  "batch_loop pf cb n i ps st fs acc = (evs, rs, st', fs') \<Longrightarrow>
   length rs = length acc + length ps \<and> take (length acc) rs = acc
   \<and> (\<forall>k<length ps. rs ! (length acc + k)
          = slot pf (i + k) (ps ! k) (loop_state pf i (take k ps) (st, fs)))
   \<and> (st', fs') = loop_state pf i ps (st, fs)"
proof (induction ps arbitrary: i st fs acc evs)
  case Nil
  then show ?case by simp
next
  case (Cons p rest)
  obtain e outcome st1 fs1 where step: "pf i p st fs = ((e, outcome), st1, fs1)"
    by (metis prod.collapse)
  let ?result = "slot pf i p (st, fs)"
  have res: "(case outcome of Inr r \<Rightarrow> r | Inl x \<Rightarrow> Raised x (path_str p)) = ?result"
    using step by (simp add: slot_def)
  obtain evr where
    rec: "batch_loop pf cb n (i + 1) rest st1 fs1 (acc @ [?result]) = (evr, rs, st', fs')"
    using Cons.prems step res
    by (cases "batch_loop pf cb n (i + 1) rest st1 fs1 (acc @ [?result])")
      (simp add: Let_def)
  from Cons.IH [OF rec] have
    len: "length rs = length acc + 1 + length rest"
    and pre: "take (length acc + 1) rs = acc @ [?result]"
    and slots: "\<forall>k<length rest. rs ! (length acc + 1 + k)
                  = slot pf (i + 1 + k) (rest ! k) (loop_state pf (i + 1) (take k rest) (st1, fs1))"
    and fin: "(st', fs') = loop_state pf (i + 1) rest (st1, fs1)"
    by simp_all
  have pre': "take (length acc) rs = acc"
  proof -
    have "take (length acc) (take (length acc + 1) rs) = take (length acc) (acc @ [?result])"
      using pre by simp
    then show ?thesis by simp
  qed
  have here: "rs ! length acc = ?result"
  proof -
    have "rs ! length acc = take (length acc + 1) rs ! length acc"
      by simp
    also have "\<dots> = ?result"
      unfolding pre by simp
    finally show ?thesis .
  qed
  have each: "rs ! (length acc + k)
                = slot pf (i + k) ((p # rest) ! k) (loop_state pf i (take k (p # rest)) (st, fs))"
    if "k < length (p # rest)" for k
  proof (cases k)
    case 0
    with here show ?thesis by simp
  next
    case (Suc j)
    with that have "j < length rest" by simp
    with slots Suc step show ?thesis by simp
  qed
  from len pre' each fin step show ?case
    by simp
qed

lemma file_op_of_slot:
  "slot (file_op_of ct self envs) k p s
     = fst (snd (process_file ct self (envs k) (fst s) (snd s) p None False True))"
  by (simp add: slot_def file_op_of_def split: prod.splits)

text \<open>
  C4. The result list has one entry for each input path, in input order: entry k is
  what the loop body appends for path k (the result of the operation on that path, or
  the error entry built from the exception it raised), in the state the earlier files
  left behind. Whether an earlier file succeeded, failed or raised does not matter. For
  the operation process_batch uses, entry k is the result of process_file on path k.
\<close>

theorem process_batch_results:
  assumes "process_batch_with pf cb completion t_start t_end file_paths st fs
             = (evs, results, st', fs')"
  shows "length results = length file_paths
         \<and> (\<forall>k<length file_paths.
               results ! k = slot pf k (file_paths ! k)
                 (loop_state pf 0 (take k file_paths) (st\<lparr>start_time := Some t_start\<rparr>, fs)))
         \<and> (pf = file_op_of ct self envs \<longrightarrow>
              (\<forall>k<length file_paths.
                 results ! k =
                   fst (snd (process_file ct self (envs k)
                     (fst (loop_state pf 0 (take k file_paths)
                            (st\<lparr>start_time := Some t_start\<rparr>, fs)))
                     (snd (loop_state pf 0 (take k file_paths)
                            (st\<lparr>start_time := Some t_start\<rparr>, fs)))
                     (file_paths ! k) None False True))))"
proof -
  let ?st0 = "st\<lparr>start_time := Some t_start\<rparr>"
  obtain ev rs st1 fs1 where
    loop: "batch_loop pf cb (length file_paths) 0 file_paths ?st0 fs [] = (ev, rs, st1, fs1)"
    by (metis prod.collapse)
  with assms have rs: "results = rs"
    by (simp add: process_batch_with_def Let_def)
  from batch_loop_spec [OF loop] rs have
    len: "length results = length file_paths"
    and slots: "\<forall>k<length file_paths.
                  results ! k = slot pf k (file_paths ! k)
                    (loop_state pf 0 (take k file_paths) (?st0, fs))"
    by simp_all
  from len slots show ?thesis
    by (simp add: file_op_of_slot)
qed

theorem process_batch_results_witness:
  "length (fst (snd (process_batch ascii_a_blank (PDFProcessor ''spa'' (Some ''out'') True)
             (\<lambda>i. quiet_env) True False 0 1
             [in_path ''text'', in_path ''junk'', in_path ''scan1''] initial_stats batch_fs))) = 3
   \<and> map success (fst (snd (process_batch ascii_a_blank (PDFProcessor ''spa'' (Some ''out'') True)
             (\<lambda>i. quiet_env) True False 0 1
             [in_path ''text'', in_path ''junk'', in_path ''scan1''] initial_stats batch_fs)))
       = [True, False, True]"
proof -
  let ?X = "process_batch_with
              (file_op_of ascii_a_blank (PDFProcessor ''spa'' (Some ''out'') True) (\<lambda>i. quiet_env))
              True False 0 1
              [in_path ''text'', in_path ''junk'', in_path ''scan1''] initial_stats batch_fs"
  have run: "?X = (fst ?X, fst (snd ?X), fst (snd (snd ?X)), snd (snd (snd ?X)))"
    by simp
  have s: "map success (fst (snd (process_batch ascii_a_blank
             (PDFProcessor ''spa'' (Some ''out'') True)
             (\<lambda>i. quiet_env) True False 0 1
             [in_path ''text'', in_path ''junk'', in_path ''scan1''] initial_stats batch_fs)))
       = [True, False, True]"
    by code_simp
  from process_batch_results [OF run] s show ?thesis
    by (simp add: process_batch_def)
qed


end
